theory Spec2Isabelle
  imports Complex_Main
begin

section \<open>Data model: the document snapshot\<close>

text \<open>
  The snapshot is the \<^verbatim>\<open>slides.Presentation\<close> value returned by
  \<^verbatim>\<open>Presentations.Get\<close>. Only the fields that the services read are kept.
  A Go pointer that the code tests against \<^verbatim>\<open>nil\<close> is an \<open>option\<close>
  (\<^verbatim>\<open>Shape\<close>, \<^verbatim>\<open>Text\<close>, \<^verbatim>\<open>TextRun\<close>, \<^verbatim>\<open>NotesPage\<close>). A pointer that the
  code always dereferences without a test and that the Slides API populates for every page
  listed in \<^verbatim>\<open>Slides\<close> (\<^verbatim>\<open>SlideProperties\<close>, the entries of the element slices) is a
  plain value. Strings are Go strings: lists of bytes.
\<close>

record text_run =
  Content :: string

record text_element =
  TextRun :: "text_run option"

record text_content =
  TextElements :: "text_element list"

record shape =
  Text :: "text_content option"

record page_element =
  ObjectId :: string
  Shape :: "shape option"

text \<open>A notes page is a \<^verbatim>\<open>Page\<close>; a slide is a \<^verbatim>\<open>Page\<close> with slide properties.\<close>

record page =
  ObjectId :: string
  PageElements :: "page_element list"

record slide_properties =
  NotesPage :: "page option"

record slide = page +
  SlideProperties :: slide_properties

record presentation =
  PresentationId :: string
  Title :: string
  Slides :: "slide list"

section \<open>Primitive edit operations\<close>

record element_properties =
  PageObjectId :: string
  Width :: int
  Height :: int
  TranslateX :: int
  TranslateY :: int

record rgb_color =
  Red :: real
  Green :: real
  Blue :: real

record table_cell_location =
  RowIndex :: int
  ColumnIndex :: int

datatype request =
    DuplicateObject string
  | DeleteObject string
  | UpdateSlidesPosition "string list" int
  | CreateTable string element_properties int int
  | CreateShape string string element_properties
  | InsertText string "table_cell_location option" string int
  | UpdateTableCellProperties string "rgb_color option" table_cell_location int int string

section \<open>Errors, remote collaborators and process state\<close>

text \<open>
  Every \<^verbatim>\<open>fmt.Errorf\<close> of the services is a constructor. \<open>Wrapped op e\<close> is
  \<^verbatim>\<open>fmt.Errorf("op: %w", e)\<close> around the error \<open>e\<close> of a remote call.
  \<open>PanicIndex i n\<close> is not an error value: it is the Go run-time panic
  \<^verbatim>\<open>index out of range [i] with length n\<close>, which aborts the process.
\<close>

datatype error =
    SlideIndexOutOfRange
  | SlideIndexNOutOfRange int
  | InvalidIndex string
  | NotesPageNotAvailable
  | NotesShapeNotFound
  | Wrapped string string
  | PanicIndex int nat

text \<open>The taxonomy of the specification, read off the messages.\<close>

fun is_OutOfRange :: "error \<Rightarrow> bool" where
  "is_OutOfRange SlideIndexOutOfRange = True"
| "is_OutOfRange (SlideIndexNOutOfRange i) = True"
| "is_OutOfRange e = False"

fun is_MalformedInput :: "error \<Rightarrow> bool" where
  "is_MalformedInput (InvalidIndex s) = True"
| "is_MalformedInput e = False"

text \<open>
  The remote services are state transitions on an abstract world \<open>'w\<close>; a remote error is
  its message. \<open>UnixNano n\<close> is the value of the \<open>n\<close>-th call
  \<^verbatim>\<open>time.Now().UnixNano()\<close> of the process. Two routines of the Go library are
  taken as they are: \<open>Sscanf_rgb s\<close> is the content of \<^verbatim>\<open>r, g, b\<close> after
  \<^verbatim>\<open>fmt.Sscanf(s, "%02x%02x%02x", &r, &g, &b)\<close> on zeroed variables (the code discards
  the error of that call), and \<open>MapToLower s\<close> is \<^verbatim>\<open>strings.Map(unicode.ToLower, s)\<close>,
  the path that \<^verbatim>\<open>strings.ToLower\<close> takes on a string with a non-ASCII byte.
\<close>

record 'w env =
  PresentationsCreate :: "string \<Rightarrow> 'w \<Rightarrow> (string + presentation) \<times> 'w"
  PresentationsGet :: "string \<Rightarrow> 'w \<Rightarrow> (string + presentation) \<times> 'w"
  PresentationsBatchUpdate :: "string \<Rightarrow> request list \<Rightarrow> 'w \<Rightarrow> string option \<times> 'w"
  FilesUpdateAddParents :: "string \<Rightarrow> string \<Rightarrow> 'w \<Rightarrow> string option \<times> 'w"
  UnixNano :: "nat \<Rightarrow> int"
  Sscanf_rgb :: "string \<Rightarrow> int \<times> int \<times> int"
  MapToLower :: "string \<Rightarrow> string"

datatype call =
    CallCreate string
  | CallGet string
  | CallBatchUpdate string "request list"
  | CallFilesUpdate string string

text \<open>
  The process state: the remote world, the remote calls issued so far in order, and the
  number of clock readings taken so far.
\<close>

record 'w state =
  world :: 'w
  trace :: "call list"
  ticks :: nat

definition do_create :: "'w env \<Rightarrow> string \<Rightarrow> 'w state \<Rightarrow> (string + presentation) \<times> 'w state" where
  "do_create env title st =
     (case PresentationsCreate env title (world st) of
        (r, w) \<Rightarrow> (r, st\<lparr>world := w, trace := trace st @ [CallCreate title]\<rparr>))"

definition do_get :: "'w env \<Rightarrow> string \<Rightarrow> 'w state \<Rightarrow> (string + presentation) \<times> 'w state" where
  "do_get env presentationID st =
     (case PresentationsGet env presentationID (world st) of
        (r, w) \<Rightarrow> (r, st\<lparr>world := w, trace := trace st @ [CallGet presentationID]\<rparr>))"

definition do_batch_update ::
  "'w env \<Rightarrow> string \<Rightarrow> request list \<Rightarrow> 'w state \<Rightarrow> string option \<times> 'w state" where
  "do_batch_update env presentationID requests st =
     (case PresentationsBatchUpdate env presentationID requests (world st) of
        (r, w) \<Rightarrow>
          (r, st\<lparr>world := w, trace := trace st @ [CallBatchUpdate presentationID requests]\<rparr>))"

definition do_files_update ::
  "'w env \<Rightarrow> string \<Rightarrow> string \<Rightarrow> 'w state \<Rightarrow> string option \<times> 'w state" where
  "do_files_update env fileID folderID st =
     (case FilesUpdateAddParents env fileID folderID (world st) of
        (r, w) \<Rightarrow> (r, st\<lparr>world := w, trace := trace st @ [CallFilesUpdate fileID folderID]\<rparr>))"

section \<open>The Go library routines that the services call\<close>

subsection \<open>Indexing a slice\<close>

text \<open>
  \<^verbatim>\<open>presentation.Slides[i]\<close>: Go panics when \<open>i\<close> is negative or not below the length.
\<close>

definition slide_at :: "slide list \<Rightarrow> int \<Rightarrow> error + slide" where
  "slide_at slides i =
     (if 0 \<le> i \<and> i < int (length slides) then Inr (slides ! nat i)
      else Inl (PanicIndex i (length slides)))"

subsection \<open>Decimal formatting: the verb \<^verbatim>\<open>%d\<close>\<close>

definition digit_char :: "nat \<Rightarrow> char" where
  "digit_char d = ''0123456789'' ! d"

function FormatNat :: "nat \<Rightarrow> string" where
  "FormatNat n =
     (if n < 10 then [digit_char n] else FormatNat (n div 10) @ [digit_char (n mod 10)])"
  by pat_completeness auto
termination
  by (relation "measure id") auto

declare FormatNat.simps [simp del]

definition FormatInt :: "int \<Rightarrow> string" where
  "FormatInt i = (if i < 0 then CHR ''-'' # FormatNat (nat (- i)) else FormatNat (nat i))"

subsection \<open>\<^verbatim>\<open>strconv.Atoi\<close>\<close>

text \<open>
  An optional sign, then at least one decimal digit and nothing else; the value must fit
  the 64-bit \<^verbatim>\<open>int\<close>. \<open>None\<close> stands for any error of \<^verbatim>\<open>Atoi\<close>.
\<close>

fun parse_digits :: "string \<Rightarrow> nat \<Rightarrow> nat option" where
  "parse_digits [] n = Some n"
| "parse_digits (ch # s) n =
     (if of_char ch < (48::nat) \<or> of_char ch - (48::nat) > 9 then None
      else parse_digits s (n * 10 + (of_char ch - 48)))"

definition Atoi :: "string \<Rightarrow> int option" where
  "Atoi s =
     (if s = [] then None
      else
        let neg = (hd s = CHR ''-'');
            ds = (if hd s = CHR ''-'' \<or> hd s = CHR ''+'' then tl s else s)
        in if ds = [] then None
           else (case parse_digits ds 0 of
                   None \<Rightarrow> None
                 | Some un \<Rightarrow>
                     if \<not> neg \<and> un \<ge> 2 ^ 63 then None
                     else if neg \<and> un > 2 ^ 63 then None
                     else Some (if neg then - int un else int un)))"

subsection \<open>Package \<^verbatim>\<open>strings\<close>\<close>

definition has_prefix :: "string \<Rightarrow> string \<Rightarrow> bool" where
  "has_prefix s p = (take (length p) s = p)"

definition has_suffix :: "string \<Rightarrow> string \<Rightarrow> bool" where
  "has_suffix s p = (length p \<le> length s \<and> drop (length s - length p) s = p)"

text \<open>
  The UTF-8 encodings of the code points for which \<^verbatim>\<open>unicode.IsSpace\<close> holds: the six
  ASCII spaces, U+0085, U+00A0, U+1680, U+2000 to U+200A, U+2028, U+2029, U+202F, U+205F
  and U+3000.
\<close>

definition space_runes :: "string list" where
  "space_runes =
     [[CHR 0x09], [CHR 0x0A], [CHR 0x0B], [CHR 0x0C], [CHR 0x0D], [CHR 0x20],
      [CHR 0xC2, CHR 0x85], [CHR 0xC2, CHR 0xA0],
      [CHR 0xE1, CHR 0x9A, CHR 0x80],
      [CHR 0xE2, CHR 0x80, CHR 0x80], [CHR 0xE2, CHR 0x80, CHR 0x81],
      [CHR 0xE2, CHR 0x80, CHR 0x82], [CHR 0xE2, CHR 0x80, CHR 0x83],
      [CHR 0xE2, CHR 0x80, CHR 0x84], [CHR 0xE2, CHR 0x80, CHR 0x85],
      [CHR 0xE2, CHR 0x80, CHR 0x86], [CHR 0xE2, CHR 0x80, CHR 0x87],
      [CHR 0xE2, CHR 0x80, CHR 0x88], [CHR 0xE2, CHR 0x80, CHR 0x89],
      [CHR 0xE2, CHR 0x80, CHR 0x8A],
      [CHR 0xE2, CHR 0x80, CHR 0xA8], [CHR 0xE2, CHR 0x80, CHR 0xA9],
      [CHR 0xE2, CHR 0x80, CHR 0xAF],
      [CHR 0xE2, CHR 0x81, CHR 0x9F],
      [CHR 0xE3, CHR 0x80, CHR 0x80]]"

function TrimLeftSpace :: "string \<Rightarrow> string" where
  "TrimLeftSpace s =
     (case find (has_prefix s) space_runes of
        None \<Rightarrow> s
      | Some r \<Rightarrow> TrimLeftSpace (drop (length r) s))"
  by pat_completeness auto
termination
proof (relation "measure length")
  show "wf (measure length)" by simp
next
  fix s r
  assume "find (has_prefix s) space_runes = Some r"
  then have mem: "r \<in> set space_runes" and pre: "has_prefix s r"
    by (auto simp: find_Some_iff)
  have "[] \<notin> set space_runes" by (simp add: space_runes_def)
  with mem have "r \<noteq> []" by blast
  moreover from pre have "length (take (length r) s) = length r"
    by (simp add: has_prefix_def)
  then have "length r \<le> length s" by simp
  ultimately show "(drop (length r) s, s) \<in> measure length"
    by (cases r) auto
qed

function TrimRightSpace :: "string \<Rightarrow> string" where
  "TrimRightSpace s =
     (case find (has_suffix s) space_runes of
        None \<Rightarrow> s
      | Some r \<Rightarrow> TrimRightSpace (take (length s - length r) s))"
  by pat_completeness auto
termination
proof (relation "measure length")
  show "wf (measure length)" by simp
next
  fix s r
  assume "find (has_suffix s) space_runes = Some r"
  then have mem: "r \<in> set space_runes" and suf: "has_suffix s r"
    by (auto simp: find_Some_iff)
  have "[] \<notin> set space_runes" by (simp add: space_runes_def)
  with mem have "r \<noteq> []" by blast
  moreover from suf have "length r \<le> length s" by (simp add: has_suffix_def)
  ultimately show "(take (length s - length r) s, s) \<in> measure length"
    by (cases r) auto
qed

declare TrimLeftSpace.simps [simp del] TrimRightSpace.simps [simp del]

definition TrimSpace :: "string \<Rightarrow> string" where
  "TrimSpace s = TrimRightSpace (TrimLeftSpace s)"

definition TrimPrefix :: "string \<Rightarrow> string \<Rightarrow> string" where
  "TrimPrefix s p = (if has_prefix s p then drop (length p) s else s)"

text \<open>\<^verbatim>\<open>strings.Split\<close> with a separator of one byte.\<close>

fun Split :: "string \<Rightarrow> char \<Rightarrow> string list" where
  "Split [] sep = [[]]"
| "Split (c # s) sep =
     (if c = sep then [] # Split s sep
      else (case Split s sep of [] \<Rightarrow> [[c]] | t # ts \<Rightarrow> (c # t) # ts))"

fun Contains :: "string \<Rightarrow> string \<Rightarrow> bool" where
  "Contains [] substr = (substr = [])"
| "Contains (c # s) substr = (has_prefix (c # s) substr \<or> Contains s substr)"

text \<open>
  \<^verbatim>\<open>strings.ToLower\<close>: a string of ASCII bytes is lowered byte by byte; any other string
  goes through \<^verbatim>\<open>strings.Map(unicode.ToLower, s)\<close>.
\<close>

definition lower_byte :: "char \<Rightarrow> char" where
  "lower_byte c =
     (case map_of (zip ''ABCDEFGHIJKLMNOPQRSTUVWXYZ'' ''abcdefghijklmnopqrstuvwxyz'') c of
        None \<Rightarrow> c
      | Some l \<Rightarrow> l)"

definition ToLower :: "'w env \<Rightarrow> string \<Rightarrow> string" where
  "ToLower env s =
     (if list_all (\<lambda>c. of_char c < (128::nat)) s then map lower_byte s else MapToLower env s)"

section \<open>Package style\<close>

definition CopyTextStyle ::
  "'w env \<Rightarrow> string \<Rightarrow> string \<Rightarrow> string \<Rightarrow> 'w state \<Rightarrow> error option \<times> 'w state" where
  "CopyTextStyle env presentationID sourceObjectID targetObjectID st = (None, st)"

definition CopyTheme ::
  "'w env \<Rightarrow> string \<Rightarrow> string \<Rightarrow> 'w state \<Rightarrow> error option \<times> 'w state" where
  "CopyTheme env sourcePresentationID targetPresentationID st = (None, st)"

definition TranslateSlides ::
  "'w env \<Rightarrow> string \<Rightarrow> string \<Rightarrow> 'w state \<Rightarrow> error option \<times> 'w state" where
  "TranslateSlides env presentationID targetLanguage st = (None, st)"

section \<open>Package presentation\<close>

definition presentation_Create ::
  "'w env \<Rightarrow> string \<Rightarrow> string \<Rightarrow> 'w state \<Rightarrow> (error + presentation) \<times> 'w state" where
  "presentation_Create env title folderID st =
     (case do_create env title st of
        (Inl err, st1) \<Rightarrow> (Inl (Wrapped ''error creating presentation'' err), st1)
      | (Inr result, st1) \<Rightarrow>
          if folderID \<noteq> [] then
            (case do_files_update env (PresentationId result) folderID st1 of
               (Some err, st2) \<Rightarrow> (Inl (Wrapped ''error moving to folder'' err), st2)
             | (None, st2) \<Rightarrow> (Inr result, st2))
          else (Inr result, st1))"

section \<open>Identifier generator\<close>

text \<open>
  \<^verbatim>\<open>fmt.Sprintf("%s_%d", prefix, time.Now().UnixNano())\<close>, the same function in the
  packages slide, table and shape. The call reads the clock once.
\<close>

definition generateObjectID :: "'w env \<Rightarrow> string \<Rightarrow> 'w state \<Rightarrow> string \<times> 'w state" where
  "generateObjectID env prefix st =
     (prefix @ ''_'' @ FormatInt (UnixNano env (ticks st)), st\<lparr>ticks := Suc (ticks st)\<rparr>)"

section \<open>Package slide\<close>

definition slide_Duplicate ::
  "'w env \<Rightarrow> string \<Rightarrow> int \<Rightarrow> 'w state \<Rightarrow> error option \<times> 'w state" where
  "slide_Duplicate env presentationID slideIndex st =
     (case do_get env presentationID st of
        (Inl err, st1) \<Rightarrow> (Some (Wrapped ''error getting presentation'' err), st1)
      | (Inr presentation, st1) \<Rightarrow>
          if slideIndex \<ge> int (length (Slides presentation)) then (Some SlideIndexOutOfRange, st1)
          else
            (case slide_at (Slides presentation) slideIndex of
               Inl panic \<Rightarrow> (Some panic, st1)
             | Inr sl \<Rightarrow>
                 (case do_batch_update env presentationID [DuplicateObject (page.ObjectId sl)] st1 of
                    (Some err, st2) \<Rightarrow> (Some (Wrapped ''error duplicating slide'' err), st2)
                  | (None, st2) \<Rightarrow> (None, st2))))"

definition slide_Move ::
  "'w env \<Rightarrow> string \<Rightarrow> int \<Rightarrow> int \<Rightarrow> 'w state \<Rightarrow> error option \<times> 'w state" where
  "slide_Move env presentationID slideIndex newPosition st =
     (case do_get env presentationID st of
        (Inl err, st1) \<Rightarrow> (Some (Wrapped ''error getting presentation'' err), st1)
      | (Inr presentation, st1) \<Rightarrow>
          if slideIndex \<ge> int (length (Slides presentation)) then (Some SlideIndexOutOfRange, st1)
          else
            (case slide_at (Slides presentation) slideIndex of
               Inl panic \<Rightarrow> (Some panic, st1)
             | Inr sl \<Rightarrow>
                 (case do_batch_update env presentationID
                         [UpdateSlidesPosition [page.ObjectId sl] newPosition] st1 of
                    (Some err, st2) \<Rightarrow> (Some (Wrapped ''error moving slide'' err), st2)
                  | (None, st2) \<Rightarrow> (None, st2))))"

definition slide_Remove ::
  "'w env \<Rightarrow> string \<Rightarrow> int \<Rightarrow> 'w state \<Rightarrow> error option \<times> 'w state" where
  "slide_Remove env presentationID slideIndex st =
     (case do_get env presentationID st of
        (Inl err, st1) \<Rightarrow> (Some (Wrapped ''error getting presentation'' err), st1)
      | (Inr presentation, st1) \<Rightarrow>
          if slideIndex \<ge> int (length (Slides presentation)) then (Some SlideIndexOutOfRange, st1)
          else
            (case slide_at (Slides presentation) slideIndex of
               Inl panic \<Rightarrow> (Some panic, st1)
             | Inr sl \<Rightarrow>
                 (case do_batch_update env presentationID [DeleteObject (page.ObjectId sl)] st1 of
                    (Some err, st2) \<Rightarrow> (Some (Wrapped ''error removing slide'' err), st2)
                  | (None, st2) \<Rightarrow> (None, st2))))"

text \<open>The first loop of \<^verbatim>\<open>Reorder\<close>: every token is trimmed and parsed.\<close>

fun parse_indices :: "string list \<Rightarrow> int list \<Rightarrow> error + int list" where
  "parse_indices [] indices = Inr indices"
| "parse_indices (s # rest) indices =
     (case Atoi (TrimSpace s) of
        None \<Rightarrow> Inl (InvalidIndex s)
      | Some idx \<Rightarrow> parse_indices rest (indices @ [idx]))"

text \<open>
  The second loop of \<^verbatim>\<open>Reorder\<close>, over \<^verbatim>\<open>newPosition, oldIndex := range indices\<close>.
\<close>

fun reorder_requests ::
  "slide list \<Rightarrow> nat \<Rightarrow> int list \<Rightarrow> request list \<Rightarrow> error + request list" where
  "reorder_requests slides newPosition [] requests = Inr requests"
| "reorder_requests slides newPosition (oldIndex # rest) requests =
     (if oldIndex \<ge> int (length slides) then Inl (SlideIndexNOutOfRange oldIndex)
      else
        (case slide_at slides oldIndex of
           Inl panic \<Rightarrow> Inl panic
         | Inr sl \<Rightarrow>
             reorder_requests slides (Suc newPosition) rest
               (requests @ [UpdateSlidesPosition [page.ObjectId sl] (int newPosition)])))"

definition slide_Reorder ::
  "'w env \<Rightarrow> string \<Rightarrow> string \<Rightarrow> 'w state \<Rightarrow> error option \<times> 'w state" where
  "slide_Reorder env presentationID indicesStr st =
     (case parse_indices (Split indicesStr (CHR '','')) [] of
        Inl e \<Rightarrow> (Some e, st)
      | Inr indices \<Rightarrow>
          (case do_get env presentationID st of
             (Inl err, st1) \<Rightarrow> (Some (Wrapped ''error getting presentation'' err), st1)
           | (Inr presentation, st1) \<Rightarrow>
               (case reorder_requests (Slides presentation) 0 indices [] of
                  Inl e \<Rightarrow> (Some e, st1)
                | Inr requests \<Rightarrow>
                    (case do_batch_update env presentationID requests st1 of
                       (Some err, st2) \<Rightarrow> (Some (Wrapped ''error reordering slides'' err), st2)
                     | (None, st2) \<Rightarrow> (None, st2)))))"

section \<open>Package table\<close>

definition table_Create ::
  "'w env \<Rightarrow> string \<Rightarrow> int \<Rightarrow> int \<Rightarrow> int \<Rightarrow> 'w state \<Rightarrow> (error + string) \<times> 'w state" where
  "table_Create env presentationID slideIndex rows cols st =
     (case do_get env presentationID st of
        (Inl err, st1) \<Rightarrow> (Inl (Wrapped ''error getting presentation'' err), st1)
      | (Inr presentation, st1) \<Rightarrow>
          if slideIndex \<ge> int (length (Slides presentation)) then (Inl SlideIndexOutOfRange, st1)
          else
            (case slide_at (Slides presentation) slideIndex of
               Inl panic \<Rightarrow> (Inl panic, st1)
             | Inr sl \<Rightarrow>
                 (case generateObjectID env ''table'' st1 of
                    (tableID, st2) \<Rightarrow>
                      (case do_batch_update env presentationID
                              [CreateTable tableID
                                 \<lparr>PageObjectId = page.ObjectId sl, Width = 400, Height = 200,
                                  TranslateX = 50, TranslateY = 50\<rparr>
                                 rows cols] st2 of
                         (Some err, st3) \<Rightarrow> (Inl (Wrapped ''error creating table'' err), st3)
                       | (None, st3) \<Rightarrow> (Inr tableID, st3)))))"

definition parseColor :: "'w env \<Rightarrow> string \<Rightarrow> rgb_color option" where
  "parseColor env hexColor =
     (let hexColor = TrimPrefix hexColor ''#''
      in if length hexColor \<noteq> 6 then None
         else
           (case Sscanf_rgb env hexColor of
              (r, g, b) \<Rightarrow>
                Some \<lparr>Red = real_of_int r / 255, Green = real_of_int g / 255,
                      Blue = real_of_int b / 255\<rparr>))"

definition StyleCell ::
  "'w env \<Rightarrow> string \<Rightarrow> string \<Rightarrow> int \<Rightarrow> int \<Rightarrow> string \<Rightarrow> 'w state \<Rightarrow> error option \<times> 'w state" where
  "StyleCell env presentationID tableID row col bgColor st =
     (case do_batch_update env presentationID
             [UpdateTableCellProperties tableID (parseColor env bgColor)
                \<lparr>RowIndex = row, ColumnIndex = col\<rparr> 1 1
                ''tableCellBackgroundFill.solidFill.color''] st of
        (Some err, st1) \<Rightarrow> (Some (Wrapped ''error styling cell'' err), st1)
      | (None, st1) \<Rightarrow> (None, st1))"

section \<open>Package shape\<close>

definition shape_Add ::
  "'w env \<Rightarrow> string \<Rightarrow> int \<Rightarrow> string \<Rightarrow> 'w state \<Rightarrow> (error + string) \<times> 'w state" where
  "shape_Add env presentationID slideIndex shapeType st =
     (case do_get env presentationID st of
        (Inl err, st1) \<Rightarrow> (Inl (Wrapped ''error getting presentation'' err), st1)
      | (Inr presentation, st1) \<Rightarrow>
          if slideIndex \<ge> int (length (Slides presentation)) then (Inl SlideIndexOutOfRange, st1)
          else
            (case slide_at (Slides presentation) slideIndex of
               Inl panic \<Rightarrow> (Inl panic, st1)
             | Inr sl \<Rightarrow>
                 (case generateObjectID env ''shape'' st1 of
                    (shapeID, st2) \<Rightarrow>
                      (case do_batch_update env presentationID
                              [CreateShape shapeID shapeType
                                 \<lparr>PageObjectId = page.ObjectId sl, Width = 100, Height = 100,
                                  TranslateX = 100, TranslateY = 100\<rparr>] st2 of
                         (Some err, st3) \<Rightarrow> (Inl (Wrapped ''error adding shape'' err), st3)
                       | (None, st3) \<Rightarrow> (Inr shapeID, st3)))))"

section \<open>Package text\<close>

text \<open>The innermost loop: the runs of one text body are written to the builder.\<close>

fun write_runs :: "text_element list \<Rightarrow> string \<Rightarrow> string" where
  "write_runs [] b = b"
| "write_runs (textElement # rest) b =
     write_runs rest
       (case TextRun textElement of None \<Rightarrow> b | Some run \<Rightarrow> b @ Content run)"

fun extract_elements :: "page_element list \<Rightarrow> string \<Rightarrow> string" where
  "extract_elements [] b = b"
| "extract_elements (element # rest) b =
     extract_elements rest
       (case Shape element of
          None \<Rightarrow> b
        | Some sh \<Rightarrow>
            (case shape.Text sh of
               None \<Rightarrow> b
             | Some txt \<Rightarrow> write_runs (TextElements txt) b @ [CHR 0x0A]))"

fun extract_slides :: "slide list \<Rightarrow> string \<Rightarrow> string" where
  "extract_slides [] b = b"
| "extract_slides (sl # rest) b =
     extract_slides rest
       (extract_elements (PageElements sl) b @ [CHR 0x0A, CHR ''-'', CHR ''-'', CHR ''-'', CHR 0x0A, CHR 0x0A])"

definition text_ExtractAll ::
  "'w env \<Rightarrow> string \<Rightarrow> 'w state \<Rightarrow> (error + string) \<times> 'w state" where
  "text_ExtractAll env presentationID st =
     (case do_get env presentationID st of
        (Inl err, st1) \<Rightarrow> (Inl (Wrapped ''error getting presentation'' err), st1)
      | (Inr presentation, st1) \<Rightarrow> (Inr (extract_slides (Slides presentation) []), st1))"

record search_result =
  SlideIndex :: int
  ObjectID :: string
  Text :: string

fun search_runs ::
  "'w env \<Rightarrow> string \<Rightarrow> nat \<Rightarrow> page_element \<Rightarrow> text_element list \<Rightarrow> search_result list
     \<Rightarrow> search_result list" where
  "search_runs env query slideIdx element [] results = results"
| "search_runs env query slideIdx element (textElement # rest) results =
     search_runs env query slideIdx element rest
       (case TextRun textElement of
          None \<Rightarrow> results
        | Some run \<Rightarrow>
            if Contains (ToLower env (Content run)) (ToLower env query)
            then results @ [\<lparr>SlideIndex = int slideIdx,
                              ObjectID = page_element.ObjectId element,
                              Text = Content run\<rparr>]
            else results)"

fun search_elements ::
  "'w env \<Rightarrow> string \<Rightarrow> nat \<Rightarrow> page_element list \<Rightarrow> search_result list
     \<Rightarrow> search_result list" where
  "search_elements env query slideIdx [] results = results"
| "search_elements env query slideIdx (element # rest) results =
     search_elements env query slideIdx rest
       (case Shape element of
          None \<Rightarrow> results
        | Some sh \<Rightarrow>
            (case shape.Text sh of
               None \<Rightarrow> results
             | Some txt \<Rightarrow> search_runs env query slideIdx element (TextElements txt) results))"

fun search_slides ::
  "'w env \<Rightarrow> string \<Rightarrow> nat \<Rightarrow> slide list \<Rightarrow> search_result list \<Rightarrow> search_result list" where
  "search_slides env query slideIdx [] results = results"
| "search_slides env query slideIdx (sl # rest) results =
     search_slides env query (Suc slideIdx) rest
       (search_elements env query slideIdx (PageElements sl) results)"

definition Search ::
  "'w env \<Rightarrow> string \<Rightarrow> string \<Rightarrow> 'w state \<Rightarrow> (error + search_result list) \<times> 'w state" where
  "Search env presentationID query st =
     (case do_get env presentationID st of
        (Inl err, st1) \<Rightarrow> (Inl (Wrapped ''error getting presentation'' err), st1)
      | (Inr presentation, st1) \<Rightarrow>
          (Inr (search_slides env query 0 (Slides presentation) []), st1))"

section \<open>Package notes\<close>

text \<open>
  The element loop of \<^verbatim>\<open>Get\<close> and of \<^verbatim>\<open>ExtractAll\<close>: the runs of every element that has
  a shape with a text body are written to the builder, with nothing between them.
\<close>

fun notes_elements :: "page_element list \<Rightarrow> string \<Rightarrow> string" where
  "notes_elements [] notesText = notesText"
| "notes_elements (element # rest) notesText =
     notes_elements rest
       (case Shape element of
          None \<Rightarrow> notesText
        | Some sh \<Rightarrow>
            (case shape.Text sh of
               None \<Rightarrow> notesText
             | Some txt \<Rightarrow> write_runs (TextElements txt) notesText))"

definition notes_Get ::
  "'w env \<Rightarrow> string \<Rightarrow> int \<Rightarrow> 'w state \<Rightarrow> (error + string) \<times> 'w state" where
  "notes_Get env presentationID slideIndex st =
     (case do_get env presentationID st of
        (Inl err, st1) \<Rightarrow> (Inl (Wrapped ''error getting presentation'' err), st1)
      | (Inr presentation, st1) \<Rightarrow>
          if slideIndex \<ge> int (length (Slides presentation)) then (Inl SlideIndexOutOfRange, st1)
          else
            (case slide_at (Slides presentation) slideIndex of
               Inl panic \<Rightarrow> (Inl panic, st1)
             | Inr sl \<Rightarrow>
                 (case NotesPage (SlideProperties sl) of
                    None \<Rightarrow> (Inr [], st1)
                  | Some notesPage \<Rightarrow> (Inr (notes_elements (PageElements notesPage) []), st1))))"

text \<open>
  The loop of \<^verbatim>\<open>Add\<close> that looks for the notes shape: it stops at the first element whose
  \<^verbatim>\<open>Shape\<close> is not \<^verbatim>\<open>nil\<close> and takes its identifier; the initial value is the empty
  string.
\<close>

fun find_notes_shape :: "page_element list \<Rightarrow> string" where
  "find_notes_shape [] = []"
| "find_notes_shape (element # rest) =
     (if Shape element \<noteq> None then page_element.ObjectId element else find_notes_shape rest)"

definition notes_Add ::
  "'w env \<Rightarrow> string \<Rightarrow> int \<Rightarrow> string \<Rightarrow> 'w state \<Rightarrow> error option \<times> 'w state" where
  "notes_Add env presentationID slideIndex notesContent st =
     (case do_get env presentationID st of
        (Inl err, st1) \<Rightarrow> (Some (Wrapped ''error getting presentation'' err), st1)
      | (Inr presentation, st1) \<Rightarrow>
          if slideIndex \<ge> int (length (Slides presentation)) then (Some SlideIndexOutOfRange, st1)
          else
            (case slide_at (Slides presentation) slideIndex of
               Inl panic \<Rightarrow> (Some panic, st1)
             | Inr sl \<Rightarrow>
                 (case NotesPage (SlideProperties sl) of
                    None \<Rightarrow> (Some NotesPageNotAvailable, st1)
                  | Some notesPage \<Rightarrow>
                      if length (PageElements notesPage) = 0
                      then (Some NotesPageNotAvailable, st1)
                      else
                        (let notesShapeID = find_notes_shape (PageElements notesPage)
                         in if notesShapeID = [] then (Some NotesShapeNotFound, st1)
                            else
                              (case do_batch_update env presentationID
                                      [InsertText notesShapeID None notesContent 0] st1 of
                                 (Some err, st2) \<Rightarrow> (Some (Wrapped ''error adding notes'' err), st2)
                               | (None, st2) \<Rightarrow> (None, st2))))))"

text \<open>The slide loop of \<^verbatim>\<open>ExtractAll\<close>, over \<^verbatim>\<open>idx, slide := range presentation.Slides\<close>.\<close>

fun extract_notes ::
  "nat \<Rightarrow> slide list \<Rightarrow> (string \<rightharpoonup> string) \<Rightarrow> (string \<rightharpoonup> string)" where
  "extract_notes idx [] allNotes = allNotes"
| "extract_notes idx (sl # rest) allNotes =
     extract_notes (Suc idx) rest
       (case NotesPage (SlideProperties sl) of
          None \<Rightarrow> allNotes
        | Some notesPage \<Rightarrow>
            (let notesText = notes_elements (PageElements notesPage) []
             in if length notesText > 0
                then allNotes(''slide_'' @ FormatInt (int idx) \<mapsto> TrimSpace notesText)
                else allNotes))"

definition notes_ExtractAll ::
  "'w env \<Rightarrow> string \<Rightarrow> 'w state \<Rightarrow> (error + (string \<rightharpoonup> string)) \<times> 'w state" where
  "notes_ExtractAll env presentationID st =
     (case do_get env presentationID st of
        (Inl err, st1) \<Rightarrow> (Inl (Wrapped ''error getting presentation'' err), st1)
      | (Inr presentation, st1) \<Rightarrow>
          (Inr (extract_notes 0 (Slides presentation) Map.empty), st1))"

section \<open>Reference descriptions used in the statements\<close>

text \<open>
  These definitions follow the wording of the specification; the theorems compare them
  with the loops of the services.
\<close>

definition run_text :: "text_element \<Rightarrow> string" where
  "run_text textElement = (case TextRun textElement of None \<Rightarrow> [] | Some run \<Rightarrow> Content run)"

text \<open>The text body of an element, when it has one.\<close>

definition text_body :: "page_element \<Rightarrow> text_content option" where
  "text_body element = (case Shape element of None \<Rightarrow> None | Some sh \<Rightarrow> shape.Text sh)"

text \<open>The flattened text of a text body: its runs, in order, with nothing between.\<close>

definition flattened_text :: "text_content \<Rightarrow> string" where
  "flattened_text txt = concat (map run_text (TextElements txt))"

definition spec_element_text :: "page_element \<Rightarrow> string" where
  "spec_element_text element =
     (case text_body element of None \<Rightarrow> [] | Some txt \<Rightarrow> flattened_text txt @ [CHR 0x0A])"

definition slide_delimiter :: string where
  "slide_delimiter = [CHR 0x0A, CHR ''-'', CHR ''-'', CHR ''-'', CHR 0x0A, CHR 0x0A]"

definition spec_slide_text :: "slide \<Rightarrow> string" where
  "spec_slide_text sl = concat (map spec_element_text (PageElements sl)) @ slide_delimiter"

text \<open>The search results of one run, of one element and of one indexed slide.\<close>

definition run_match ::
  "'w env \<Rightarrow> string \<Rightarrow> nat \<Rightarrow> page_element \<Rightarrow> text_element \<Rightarrow> search_result list" where
  "run_match env query slideIdx element textElement =
     (case TextRun textElement of
        None \<Rightarrow> []
      | Some run \<Rightarrow>
          if Contains (ToLower env (Content run)) (ToLower env query)
          then [\<lparr>SlideIndex = int slideIdx, ObjectID = page_element.ObjectId element,
                 Text = Content run\<rparr>]
          else [])"

definition element_matches ::
  "'w env \<Rightarrow> string \<Rightarrow> nat \<Rightarrow> page_element \<Rightarrow> search_result list" where
  "element_matches env query slideIdx element =
     (case text_body element of
        None \<Rightarrow> []
      | Some txt \<Rightarrow> concat (map (run_match env query slideIdx element) (TextElements txt)))"

definition slide_matches :: "'w env \<Rightarrow> string \<Rightarrow> nat \<times> slide \<Rightarrow> search_result list" where
  "slide_matches env query p =
     concat (map (element_matches env query (fst p)) (PageElements (snd p)))"

text \<open>The notes of a slide: the concatenated text of its notes page, then trimmed.\<close>

definition element_notes :: "page_element \<Rightarrow> string" where
  "element_notes element = (case text_body element of None \<Rightarrow> [] | Some txt \<Rightarrow> flattened_text txt)"

definition notes_text :: "page \<Rightarrow> string" where
  "notes_text notesPage = concat (map element_notes (PageElements notesPage))"

definition spec_notes :: "slide \<Rightarrow> string option" where
  "spec_notes sl =
     (case NotesPage (SlideProperties sl) of
        None \<Rightarrow> None
      | Some notesPage \<Rightarrow>
          if notes_text notesPage = [] then None else Some (TrimSpace (notes_text notesPage)))"

definition slide_key :: "nat \<Rightarrow> string" where
  "slide_key idx = ''slide_'' @ FormatInt (int idx)"

text \<open>Two calls of the identifier generator in immediate succession.\<close>

definition two_ids :: "'w env \<Rightarrow> string \<Rightarrow> 'w state \<Rightarrow> string \<times> string" where
  "two_ids env prefix st =
     (case generateObjectID env prefix st of
        (first, st1) \<Rightarrow>
          (case generateObjectID env prefix st1 of
             (second, st2) \<Rightarrow> (first, second)))"

text \<open>An ordinal is in bounds; the reposition primitive of a listed ordinal.\<close>

definition in_bounds :: "slide list \<Rightarrow> int \<Rightarrow> bool" where
  "in_bounds slides i = (0 \<le> i \<and> i < int (length slides))"

definition reposition :: "slide list \<Rightarrow> nat \<times> int \<Rightarrow> request" where
  "reposition slides p = UpdateSlidesPosition [page.ObjectId (slides ! nat (snd p))] (int (fst p))"

section \<open>Concrete collaborators used in the examples\<close>

text \<open>
  A remote world that is the list of the titles of the presentations that exist. Creation
  always succeeds and appends; moving to a folder is always refused.
\<close>

definition env_move_refused :: "string list env" where
  "env_move_refused =
     \<lparr>PresentationsCreate =
        (\<lambda>title w. (Inr \<lparr>PresentationId = ''id_'' @ title, Title = title, Slides = []\<rparr>,
                     w @ [title])),
      PresentationsGet = (\<lambda>presentationID w. (Inl ''not found'', w)),
      PresentationsBatchUpdate = (\<lambda>presentationID requests w. (Some ''rejected'', w)),
      FilesUpdateAddParents = (\<lambda>fileID folderID w. (Some ''forbidden'', w)),
      UnixNano = (\<lambda>n. 0),
      Sscanf_rgb = (\<lambda>s. (0, 0, 0)),
      MapToLower = (\<lambda>s. s)\<rparr>"

definition st_empty :: "string list state" where
  "st_empty = \<lparr>world = [], trace = [], ticks = 0\<rparr>"

text \<open>Snapshots are built from these.\<close>

definition text_shape :: "string \<Rightarrow> string list \<Rightarrow> page_element" where
  "text_shape oid runs =
     \<lparr>page_element.ObjectId = oid,
      Shape = Some \<lparr>shape.Text =
                Some \<lparr>TextElements = map (\<lambda>s. \<lparr>TextRun = Some \<lparr>Content = s\<rparr>\<rparr>) runs\<rparr>\<rparr>\<rparr>"

definition bare_shape :: "string \<Rightarrow> page_element" where
  "bare_shape oid = \<lparr>page_element.ObjectId = oid, Shape = Some \<lparr>shape.Text = None\<rparr>\<rparr>"

definition mk_slide :: "string \<Rightarrow> page_element list \<Rightarrow> page option \<Rightarrow> slide" where
  "mk_slide oid elements notesPage =
     \<lparr>page.ObjectId = oid, PageElements = elements,
      SlideProperties = \<lparr>NotesPage = notesPage\<rparr>\<rparr>"

definition mk_deck :: "slide list \<Rightarrow> presentation" where
  "mk_deck slides = \<lparr>PresentationId = ''p'', Title = ''Deck'', Slides = slides\<rparr>"

text \<open>
  A remote service that serves one snapshot and accepts every batch, with a given clock.
  The examples never reach \<^verbatim>\<open>Sscanf\<close> and never lower a non-ASCII string, so these
  two fields are arbitrary here.
\<close>

definition env_serving :: "presentation \<Rightarrow> (nat \<Rightarrow> int) \<Rightarrow> unit env" where
  "env_serving deck clock =
     \<lparr>PresentationsCreate = (\<lambda>title w. (Inr deck, w)),
      PresentationsGet = (\<lambda>presentationID w. (Inr deck, w)),
      PresentationsBatchUpdate = (\<lambda>presentationID requests w. (None, w)),
      FilesUpdateAddParents = (\<lambda>fileID folderID w. (None, w)),
      UnixNano = clock,
      Sscanf_rgb = (\<lambda>s. (0, 0, 0)),
      MapToLower = (\<lambda>s. s)\<rparr>"

definition st_start :: "unit state" where
  "st_start = \<lparr>world = (), trace = [], ticks = 0\<rparr>"

text \<open>A clock that gives the same reading twice, and one that advances.\<close>

definition clock_frozen :: "nat \<Rightarrow> int" where
  "clock_frozen n = 1000"

definition clock_ticking :: "nat \<Rightarrow> int" where
  "clock_ticking n = 1000 + int n"

text \<open>Two slides, each with one element of one run: Hello and World.\<close>

definition deck_hello_world :: presentation where
  "deck_hello_world =
     mk_deck [mk_slide ''s0'' [text_shape ''e0'' [''Hello'']] None,
              mk_slide ''s1'' [text_shape ''e1'' [''World'']] None]"

definition env_frozen_clock :: "unit env" where
  "env_frozen_clock = env_serving deck_hello_world clock_frozen"

definition env_ticking_clock :: "unit env" where
  "env_ticking_clock = env_serving deck_hello_world clock_ticking"

text \<open>One slide whose notes page holds a single shape that has no text body.\<close>

definition deck_bare_notes :: presentation where
  "deck_bare_notes =
     mk_deck [mk_slide ''s0'' []
                (Some \<lparr>page.ObjectId = ''n0'', PageElements = [bare_shape ''body'']\<rparr>)]"

definition env_bare_notes :: "unit env" where
  "env_bare_notes = env_serving deck_bare_notes clock_frozen"

text \<open>
  One slide whose notes page holds an element that is no shape, then a shape with no text
  body, then a shape with text.
\<close>

definition deck_mixed_notes :: presentation where
  "deck_mixed_notes =
     mk_deck [mk_slide ''s0'' []
                (Some \<lparr>page.ObjectId = ''n0'',
                       PageElements = [\<lparr>page_element.ObjectId = ''img'', Shape = None\<rparr>,
                                       bare_shape ''body'',
                                       text_shape ''other'' [''x'']]\<rparr>)]"

definition env_mixed_notes :: "unit env" where
  "env_mixed_notes = env_serving deck_mixed_notes clock_frozen"

text \<open>Slide 0 has the notes \<open>''  remember this  ''\<close>, slide 1 has no notes page.\<close>

definition deck_notes :: presentation where
  "deck_notes =
     mk_deck [mk_slide ''s0'' []
                (Some \<lparr>page.ObjectId = ''n0'',
                       PageElements = [text_shape ''body'' [''  remember this  '']]\<rparr>),
              mk_slide ''s1'' [] None]"

definition env_notes :: "unit env" where
  "env_notes = env_serving deck_notes clock_frozen"

text \<open>One element whose text Hello is split into the runs Hel and lo.\<close>

definition deck_split_runs :: presentation where
  "deck_split_runs = mk_deck [mk_slide ''s0'' [text_shape ''e0'' [''Hel'', ''lo'']] None]"

definition env_split_runs :: "unit env" where
  "env_split_runs = env_serving deck_split_runs clock_frozen"

text \<open>
  An example scanner: on six hexadecimal digits it gives the three two-digit values, as
  \<^verbatim>\<open>Sscanf\<close> with \<^verbatim>\<open>%02x%02x%02x\<close> does; the examples apply it to no other string.
\<close>

definition hex_value :: "char \<Rightarrow> int option" where
  "hex_value c =
     map_of (zip ''0123456789abcdefABCDEF''
               [0, 1, 2, 3, 4, 5, 6, 7, 8, 9, 10, 11, 12, 13, 14, 15, 10, 11, 12, 13, 14, 15]) c"

definition scan_hex_pairs :: "string \<Rightarrow> int \<times> int \<times> int" where
  "scan_hex_pairs s =
     (case map hex_value s of
        [Some a, Some b, Some c, Some d, Some e, Some f] \<Rightarrow>
          (16 * a + b, 16 * c + d, 16 * e + f)
      | _ \<Rightarrow> (0, 0, 0))"

definition env_hex_scanner :: "unit env" where
  "env_hex_scanner = env_frozen_clock\<lparr>Sscanf_rgb := scan_hex_pairs\<rparr>"

text \<open>Four slides a, b, c, d.\<close>

definition deck_four :: presentation where
  "deck_four =
     mk_deck [mk_slide ''a'' [] None, mk_slide ''b'' [] None, mk_slide ''c'' [] None,
              mk_slide ''d'' [] None]"

definition env_four :: "unit env" where
  "env_four = env_serving deck_four clock_frozen"

section \<open>Shared lemmas\<close>

lemmas deck_eval =
  env_serving_def st_start_def mk_deck_def mk_slide_def text_shape_def bare_shape_def
  clock_frozen_def deck_hello_world_def env_frozen_clock_def

lemmas format_eval = FormatInt_def FormatNat.simps digit_char_def

lemmas strings_eval =
  TrimSpace_def TrimLeftSpace.simps TrimRightSpace.simps space_runes_def has_prefix_def
  has_suffix_def TrimPrefix_def lower_byte_def ToLower_def Atoi_def

lemma do_get_eq:
  "PresentationsGet env presentationID (world st) = (r, w) \<Longrightarrow>
   do_get env presentationID st =
     (r, st\<lparr>world := w, trace := trace st @ [CallGet presentationID]\<rparr>)"
  by (simp add: do_get_def)

lemma do_batch_update_eq:
  "PresentationsBatchUpdate env presentationID requests (world st) = (r, w) \<Longrightarrow>
   do_batch_update env presentationID requests st =
     (r, st\<lparr>world := w, trace := trace st @ [CallBatchUpdate presentationID requests]\<rparr>)"
  by (simp add: do_batch_update_def)

lemma wrap_result:
  "(case r of None \<Rightarrow> (None, s) | Some err \<Rightarrow> (Some (Wrapped m err), s)) =
   (map_option (Wrapped m) r, s)"
  by (cases r) simp_all

lemma slide_at_negative: "i < 0 \<Longrightarrow> slide_at slides i = Inl (PanicIndex i (length slides))"
  by (simp add: slide_at_def)

lemma slide_at_in_range:
  "0 \<le> i \<Longrightarrow> i < int (length slides) \<Longrightarrow> slide_at slides i = Inr (slides ! nat i)"
  by (simp add: slide_at_def)

subsection \<open>Decimal formatting is injective\<close>

lemma of_char_digit_char: "d < 10 \<Longrightarrow> of_char (digit_char d) = (48::nat) + d"
proof -
  assume "d < 10"
  then have "d \<in> {0, 1, 2, 3, 4, 5, 6, 7, 8, 9}" by auto
  then show ?thesis by (auto simp: digit_char_def)
qed

lemma parse_digits_append:
  "parse_digits (s @ t) n =
     (case parse_digits s n of None \<Rightarrow> None | Some m \<Rightarrow> parse_digits t m)"
  by (induction s arbitrary: n) auto

lemma parse_digit_char: "d < 10 \<Longrightarrow> parse_digits [digit_char d] n = Some (n * 10 + d)"
  by (simp add: of_char_digit_char)

lemma parse_FormatNat: "parse_digits (FormatNat n) 0 = Some n"
proof (induction n rule: FormatNat.induct)
  case (1 n)
  show ?case
  proof (cases "n < 10")
    case True
    then show ?thesis using parse_digit_char[of n 0] by (simp add: FormatNat.simps[of n])
  next
    case False
    then have "parse_digits (FormatNat (n div 10)) 0 = Some (n div 10)" using 1 by simp
    moreover have "parse_digits [digit_char (n mod 10)] (n div 10) =
                     Some (n div 10 * 10 + n mod 10)"
      by (rule parse_digit_char) simp
    ultimately show ?thesis using False
      by (simp add: FormatNat.simps[of n] parse_digits_append del: parse_digits.simps)
  qed
qed

lemma FormatNat_inj: "FormatNat m = FormatNat n \<Longrightarrow> m = n"
  by (metis parse_FormatNat option.inject)

lemma FormatNat_hd: "\<exists>d cs. d < 10 \<and> FormatNat n = digit_char d # cs"
proof (induction n rule: FormatNat.induct)
  case (1 n)
  show ?case
  proof (cases "n < 10")
    case True
    then show ?thesis by (subst FormatNat.simps) auto
  next
    case False
    then obtain d cs where "d < 10" "FormatNat (n div 10) = digit_char d # cs"
      using 1 by blast
    then show ?thesis using False by (subst FormatNat.simps) auto
  qed
qed

lemma digit_char_not_minus: "d < 10 \<Longrightarrow> digit_char d \<noteq> CHR ''-''"
proof
  assume "d < 10" "digit_char d = CHR ''-''"
  then have "of_char (digit_char d) = (of_char (CHR ''-'') :: nat)" by simp
  with \<open>d < 10\<close> show False by (simp add: of_char_digit_char)
qed

lemma FormatNat_not_minus: "CHR ''-'' # s \<noteq> FormatNat n"
proof -
  obtain d cs where "d < 10" "FormatNat n = digit_char d # cs" using FormatNat_hd by blast
  then show ?thesis using digit_char_not_minus[of d] by auto
qed

lemma FormatInt_inj: "FormatInt i = FormatInt j \<Longrightarrow> i = j"
proof -
  assume eq: "FormatInt i = FormatInt j"
  consider "i < 0" "j < 0" | "i < 0" "\<not> j < 0" | "\<not> i < 0" "j < 0" | "\<not> i < 0" "\<not> j < 0"
    by blast
  then show "i = j"
  proof cases
    case 1
    with eq have "FormatNat (nat (- i)) = FormatNat (nat (- j))" by (simp add: FormatInt_def)
    then have "nat (- i) = nat (- j)" by (rule FormatNat_inj)
    with 1 show ?thesis by simp
  next
    case 2
    with eq FormatNat_not_minus[of "FormatNat (nat (- i))" "nat j"] show ?thesis
      by (simp add: FormatInt_def)
  next
    case 3
    with eq FormatNat_not_minus[of "FormatNat (nat (- j))" "nat i"] show ?thesis
      by (simp add: FormatInt_def)
  next
    case 4
    with eq have "FormatNat (nat i) = FormatNat (nat j)" by (simp add: FormatInt_def)
    then have "nat i = nat j" by (rule FormatNat_inj)
    with 4 show ?thesis by simp
  qed
qed

lemma slide_key_inj: "slide_key i = slide_key j \<Longrightarrow> i = j"
  using FormatInt_inj[of "int i" "int j"] by (simp add: slide_key_def)

subsection \<open>The loops over runs\<close>

lemma write_runs_eq: "write_runs tes b = b @ concat (map run_text tes)"
  by (induction tes arbitrary: b) (auto simp: run_text_def split: option.splits)

section \<open>Slide resolution\<close>

text \<open>
  What the seven operations do with an index that is not below zero: at or above the number
  of slides they return the error \<^verbatim>\<open>slide index out of range\<close> after the fetch; in range
  they address the slide at that position.
\<close>

lemma slide_index_too_large:
  assumes get: "PresentationsGet env presentationID (world st) = (Inr presentation, w1)"
    and big: "int (length (Slides presentation)) \<le> slideIndex"
  shows "slide_Duplicate env presentationID slideIndex st =
           (Some SlideIndexOutOfRange,
            st\<lparr>world := w1, trace := trace st @ [CallGet presentationID]\<rparr>)"
    and "slide_Remove env presentationID slideIndex st =
           (Some SlideIndexOutOfRange,
            st\<lparr>world := w1, trace := trace st @ [CallGet presentationID]\<rparr>)"
    and "slide_Move env presentationID slideIndex newPosition st =
           (Some SlideIndexOutOfRange,
            st\<lparr>world := w1, trace := trace st @ [CallGet presentationID]\<rparr>)"
    and "table_Create env presentationID slideIndex rows cols st =
           (Inl SlideIndexOutOfRange,
            st\<lparr>world := w1, trace := trace st @ [CallGet presentationID]\<rparr>)"
    and "shape_Add env presentationID slideIndex shapeType st =
           (Inl SlideIndexOutOfRange,
            st\<lparr>world := w1, trace := trace st @ [CallGet presentationID]\<rparr>)"
    and "notes_Get env presentationID slideIndex st =
           (Inl SlideIndexOutOfRange,
            st\<lparr>world := w1, trace := trace st @ [CallGet presentationID]\<rparr>)"
    and "notes_Add env presentationID slideIndex notesContent st =
           (Some SlideIndexOutOfRange,
            st\<lparr>world := w1, trace := trace st @ [CallGet presentationID]\<rparr>)"
  using big
  by (simp_all add: slide_Duplicate_def slide_Remove_def slide_Move_def table_Create_def
        shape_Add_def notes_Get_def notes_Add_def do_get_eq[OF get])

lemma slide_index_in_range:
  assumes get: "PresentationsGet env presentationID (world st) = (Inr presentation, w1)"
    and lo: "0 \<le> slideIndex"
    and hi: "slideIndex < int (length (Slides presentation))"
  shows "slide_Duplicate env presentationID slideIndex st =
           (case do_batch_update env presentationID
                   [DuplicateObject (page.ObjectId (Slides presentation ! nat slideIndex))]
                   (st\<lparr>world := w1, trace := trace st @ [CallGet presentationID]\<rparr>) of
              (r, st2) \<Rightarrow> (map_option (Wrapped ''error duplicating slide'') r, st2))"
    and "slide_Remove env presentationID slideIndex st =
           (case do_batch_update env presentationID
                   [DeleteObject (page.ObjectId (Slides presentation ! nat slideIndex))]
                   (st\<lparr>world := w1, trace := trace st @ [CallGet presentationID]\<rparr>) of
              (r, st2) \<Rightarrow> (map_option (Wrapped ''error removing slide'') r, st2))"
    and "slide_Move env presentationID slideIndex newPosition st =
           (case do_batch_update env presentationID
                   [UpdateSlidesPosition [page.ObjectId (Slides presentation ! nat slideIndex)]
                      newPosition]
                   (st\<lparr>world := w1, trace := trace st @ [CallGet presentationID]\<rparr>) of
              (r, st2) \<Rightarrow> (map_option (Wrapped ''error moving slide'') r, st2))"
proof -
  have small: "\<not> int (length (Slides presentation)) \<le> slideIndex" using hi by simp
  note facts = do_get_eq[OF get] small slide_at_in_range[OF lo hi] wrap_result
  show "slide_Duplicate env presentationID slideIndex st =
           (case do_batch_update env presentationID
                   [DuplicateObject (page.ObjectId (Slides presentation ! nat slideIndex))]
                   (st\<lparr>world := w1, trace := trace st @ [CallGet presentationID]\<rparr>) of
              (r, st2) \<Rightarrow> (map_option (Wrapped ''error duplicating slide'') r, st2))"
    by (simp add: slide_Duplicate_def facts split: prod.split)
  show "slide_Remove env presentationID slideIndex st =
           (case do_batch_update env presentationID
                   [DeleteObject (page.ObjectId (Slides presentation ! nat slideIndex))]
                   (st\<lparr>world := w1, trace := trace st @ [CallGet presentationID]\<rparr>) of
              (r, st2) \<Rightarrow> (map_option (Wrapped ''error removing slide'') r, st2))"
    by (simp add: slide_Remove_def facts split: prod.split)
  show "slide_Move env presentationID slideIndex newPosition st =
           (case do_batch_update env presentationID
                   [UpdateSlidesPosition [page.ObjectId (Slides presentation ! nat slideIndex)]
                      newPosition]
                   (st\<lparr>world := w1, trace := trace st @ [CallGet presentationID]\<rparr>) of
              (r, st2) \<Rightarrow> (map_option (Wrapped ''error moving slide'') r, st2))"
    by (simp add: slide_Move_def facts split: prod.split)
qed

lemma shape_add_in_range:
  assumes get: "PresentationsGet env presentationID (world st) = (Inr presentation, w1)"
    and lo: "0 \<le> slideIndex"
    and hi: "slideIndex < int (length (Slides presentation))"
  shows "shape_Add env presentationID slideIndex shapeType st =
           (case do_batch_update env presentationID
                   [CreateShape (''shape_'' @ FormatInt (UnixNano env (ticks st))) shapeType
                      \<lparr>PageObjectId = page.ObjectId (Slides presentation ! nat slideIndex),
                       Width = 100, Height = 100, TranslateX = 100, TranslateY = 100\<rparr>]
                   (st\<lparr>world := w1, trace := trace st @ [CallGet presentationID],
                       ticks := Suc (ticks st)\<rparr>) of
              (r, st3) \<Rightarrow>
                (case r of
                   None \<Rightarrow> Inr (''shape_'' @ FormatInt (UnixNano env (ticks st)))
                 | Some err \<Rightarrow> Inl (Wrapped ''error adding shape'' err), st3))"
proof -
  have small: "\<not> int (length (Slides presentation)) \<le> slideIndex" using hi by simp
  show ?thesis
    by (simp add: shape_Add_def do_get_eq[OF get] small slide_at_in_range[OF lo hi]
          generateObjectID_def split: prod.split option.split)
qed

text \<open>
  C1. The claim asks for an OutOfRange error at a negative index. The code tests only
  \<^verbatim>\<open>slideIndex >= len(presentation.Slides)\<close>, so a negative index passes the test and
  reaches \<^verbatim>\<open>presentation.Slides[slideIndex]\<close>: for every snapshot and every negative
  index, each of Duplicate, Remove, Move, table Create, shape Add, notes Get and notes Add
  ends in the run-time panic of the indexing after the fetch, with no batch submitted, and
  that outcome is not an OutOfRange error.
\<close>

theorem negative_slide_index_panics:
  assumes get: "PresentationsGet env presentationID (world st) = (Inr presentation, w1)"
    and neg: "slideIndex < 0"
  shows "slide_Duplicate env presentationID slideIndex st =
           (Some (PanicIndex slideIndex (length (Slides presentation))),
            st\<lparr>world := w1, trace := trace st @ [CallGet presentationID]\<rparr>) \<and>
         slide_Remove env presentationID slideIndex st =
           (Some (PanicIndex slideIndex (length (Slides presentation))),
            st\<lparr>world := w1, trace := trace st @ [CallGet presentationID]\<rparr>) \<and>
         slide_Move env presentationID slideIndex newPosition st =
           (Some (PanicIndex slideIndex (length (Slides presentation))),
            st\<lparr>world := w1, trace := trace st @ [CallGet presentationID]\<rparr>) \<and>
         table_Create env presentationID slideIndex rows cols st =
           (Inl (PanicIndex slideIndex (length (Slides presentation))),
            st\<lparr>world := w1, trace := trace st @ [CallGet presentationID]\<rparr>) \<and>
         shape_Add env presentationID slideIndex shapeType st =
           (Inl (PanicIndex slideIndex (length (Slides presentation))),
            st\<lparr>world := w1, trace := trace st @ [CallGet presentationID]\<rparr>) \<and>
         notes_Get env presentationID slideIndex st =
           (Inl (PanicIndex slideIndex (length (Slides presentation))),
            st\<lparr>world := w1, trace := trace st @ [CallGet presentationID]\<rparr>) \<and>
         notes_Add env presentationID slideIndex notesContent st =
           (Some (PanicIndex slideIndex (length (Slides presentation))),
            st\<lparr>world := w1, trace := trace st @ [CallGet presentationID]\<rparr>) \<and>
         \<not> is_OutOfRange (PanicIndex slideIndex (length (Slides presentation)))"
proof -
  have small: "\<not> int (length (Slides presentation)) \<le> slideIndex" using neg by simp
  note facts = do_get_eq[OF get] slide_at_negative[OF neg] small
  have "slide_Duplicate env presentationID slideIndex st =
           (Some (PanicIndex slideIndex (length (Slides presentation))),
            st\<lparr>world := w1, trace := trace st @ [CallGet presentationID]\<rparr>)"
    by (simp add: slide_Duplicate_def facts)
  moreover have "slide_Remove env presentationID slideIndex st =
           (Some (PanicIndex slideIndex (length (Slides presentation))),
            st\<lparr>world := w1, trace := trace st @ [CallGet presentationID]\<rparr>)"
    by (simp add: slide_Remove_def facts)
  moreover have "slide_Move env presentationID slideIndex newPosition st =
           (Some (PanicIndex slideIndex (length (Slides presentation))),
            st\<lparr>world := w1, trace := trace st @ [CallGet presentationID]\<rparr>)"
    by (simp add: slide_Move_def facts)
  moreover have "table_Create env presentationID slideIndex rows cols st =
           (Inl (PanicIndex slideIndex (length (Slides presentation))),
            st\<lparr>world := w1, trace := trace st @ [CallGet presentationID]\<rparr>)"
    by (simp add: table_Create_def facts)
  moreover have "shape_Add env presentationID slideIndex shapeType st =
           (Inl (PanicIndex slideIndex (length (Slides presentation))),
            st\<lparr>world := w1, trace := trace st @ [CallGet presentationID]\<rparr>)"
    by (simp add: shape_Add_def facts)
  moreover have "notes_Get env presentationID slideIndex st =
           (Inl (PanicIndex slideIndex (length (Slides presentation))),
            st\<lparr>world := w1, trace := trace st @ [CallGet presentationID]\<rparr>)"
    by (simp add: notes_Get_def facts)
  moreover have "notes_Add env presentationID slideIndex notesContent st =
           (Some (PanicIndex slideIndex (length (Slides presentation))),
            st\<lparr>world := w1, trace := trace st @ [CallGet presentationID]\<rparr>)"
    by (simp add: notes_Add_def facts)
  moreover have "\<not> is_OutOfRange (PanicIndex slideIndex (length (Slides presentation)))"
    by simp
  ultimately show ?thesis by (intro conjI)
qed

theorem negative_slide_index_panics_witness:
  "slide_Duplicate env_frozen_clock ''p'' (- 1) st_start =
     (Some (PanicIndex (- 1) 2), \<lparr>world = (), trace = [CallGet ''p''], ticks = 0\<rparr>) \<and>
   shape_Add env_frozen_clock ''p'' (- 1) ''RECTANGLE'' st_start =
     (Inl (PanicIndex (- 1) 2), \<lparr>world = (), trace = [CallGet ''p''], ticks = 0\<rparr>) \<and>
   \<not> is_OutOfRange (PanicIndex (- 1) 2)"
  using negative_slide_index_panics
    [of env_frozen_clock "''p''" st_start deck_hello_world "()" "- 1"
        0 0 0 "''RECTANGLE''" "''''"]
  by (simp add: deck_eval)

section \<open>Identifier generator\<close>

text \<open>
  C2, as amended. The identifier is the prefix, an underscore and the decimal clock reading;
  there is no sequence counter. Two calls in immediate succession with the same prefix
  return equal identifiers exactly when the two clock readings are equal, so they are
  distinct exactly when the clock has advanced between the calls.
\<close>

theorem identifiers_equal_iff_clock_equal:
  "two_ids env prefix st =
     (prefix @ ''_'' @ FormatInt (UnixNano env (ticks st)),
      prefix @ ''_'' @ FormatInt (UnixNano env (Suc (ticks st)))) \<and>
   (fst (two_ids env prefix st) = snd (two_ids env prefix st)) =
   (UnixNano env (ticks st) = UnixNano env (Suc (ticks st)))"
  using FormatInt_inj[of "UnixNano env (ticks st)" "UnixNano env (Suc (ticks st))"]
  by (auto simp: two_ids_def generateObjectID_def)

theorem identifiers_equal_iff_clock_equal_witness:
  "two_ids env_ticking_clock ''shape'' st_start = (''shape_1000'', ''shape_1001'') \<and>
   fst (two_ids env_ticking_clock ''shape'' st_start) \<noteq>
   snd (two_ids env_ticking_clock ''shape'' st_start)"
  using identifiers_equal_iff_clock_equal[of env_ticking_clock "''shape''" st_start]
  by (simp add: env_ticking_clock_def clock_ticking_def deck_eval format_eval)

text \<open>
  Counterexample to C2 as stated: with the prefix shape and a clock that gives the same
  reading to both calls, the two identifiers are equal.
\<close>

theorem same_tick_same_identifier:
  "fst (two_ids env_frozen_clock ''shape'' st_start) =
   snd (two_ids env_frozen_clock ''shape'' st_start)"
  by (simp add: two_ids_def generateObjectID_def deck_eval)

section \<open>Reorder\<close>

text \<open>
  What \<^verbatim>\<open>Reorder\<close> does: the first token that does not parse gives the error
  \<^verbatim>\<open>invalid index\<close> before any remote call; otherwise the snapshot is fetched and the
  listed ordinals are resolved against it in order; when all are in bounds one batch is
  submitted, holding for each listed ordinal, in the listed order, the reposition of the
  slide at that ordinal to its position in the list.
\<close>

lemma parse_indices_eq:
  "parse_indices tokens indices =
     (case find (\<lambda>s. Atoi (TrimSpace s) = None) tokens of
        Some s \<Rightarrow> Inl (InvalidIndex s)
      | None \<Rightarrow> Inr (indices @ map (\<lambda>s. the (Atoi (TrimSpace s))) tokens))"
  by (induction tokens arbitrary: indices) (auto split: option.splits)

lemma reorder_requests_eq:
  "reorder_requests slides newPosition indices requests =
     (case find (\<lambda>i. \<not> in_bounds slides i) indices of
        None \<Rightarrow> Inr (requests @ map (reposition slides) (enumerate newPosition indices))
      | Some j \<Rightarrow>
          Inl (if int (length slides) \<le> j then SlideIndexNOutOfRange j
               else PanicIndex j (length slides)))"
proof (induction indices arbitrary: newPosition requests)
  case Nil
  then show ?case by simp
next
  case (Cons oldIndex rest)
  show ?case
  proof (cases "0 \<le> oldIndex \<and> oldIndex < int (length slides)")
    case True
    then show ?thesis
      by (simp add: Cons.IH slide_at_def reposition_def in_bounds_def split: option.split)
  next
    case False
    then show ?thesis by (auto simp: slide_at_def in_bounds_def)
  qed
qed

lemma reorder_malformed:
  assumes "find (\<lambda>s. Atoi (TrimSpace s) = None) (Split indicesStr (CHR '','')) = Some s"
  shows "slide_Reorder env presentationID indicesStr st = (Some (InvalidIndex s), st)"
  using assms by (simp add: slide_Reorder_def parse_indices_eq)

lemma reorder_too_large:
  assumes parse: "find (\<lambda>s. Atoi (TrimSpace s) = None) (Split indicesStr (CHR '','')) = None"
    and get: "PresentationsGet env presentationID (world st) = (Inr presentation, w1)"
    and rng: "find (\<lambda>i. \<not> in_bounds (Slides presentation) i)
                (map (\<lambda>s. the (Atoi (TrimSpace s))) (Split indicesStr (CHR '',''))) = Some j"
    and big: "int (length (Slides presentation)) \<le> j"
  shows "slide_Reorder env presentationID indicesStr st =
           (Some (SlideIndexNOutOfRange j),
            st\<lparr>world := w1, trace := trace st @ [CallGet presentationID]\<rparr>)"
  by (simp add: slide_Reorder_def parse_indices_eq parse do_get_eq[OF get] reorder_requests_eq
        rng big)

lemma reorder_in_range:
  assumes parse: "find (\<lambda>s. Atoi (TrimSpace s) = None) (Split indicesStr (CHR '','')) = None"
    and get: "PresentationsGet env presentationID (world st) = (Inr presentation, w1)"
    and rng: "find (\<lambda>i. \<not> in_bounds (Slides presentation) i)
                (map (\<lambda>s. the (Atoi (TrimSpace s))) (Split indicesStr (CHR '',''))) = None"
  shows "slide_Reorder env presentationID indicesStr st =
           (case do_batch_update env presentationID
                   (map (reposition (Slides presentation))
                      (enumerate 0 (map (\<lambda>s. the (Atoi (TrimSpace s)))
                                      (Split indicesStr (CHR '','')))))
                   (st\<lparr>world := w1, trace := trace st @ [CallGet presentationID]\<rparr>) of
              (r, st2) \<Rightarrow> (map_option (Wrapped ''error reordering slides'') r, st2))"
  by (simp add: slide_Reorder_def parse_indices_eq parse do_get_eq[OF get] reorder_requests_eq
        rng wrap_result split: prod.split)

lemma reorder_example:
  "slide_Reorder env_four ''p'' ''2,0,1'' st_start =
     (None,
      \<lparr>world = (),
       trace = [CallGet ''p'',
                CallBatchUpdate ''p''
                  [UpdateSlidesPosition [''c''] 0, UpdateSlidesPosition [''a''] 1,
                   UpdateSlidesPosition [''b''] 2]],
       ticks = 0\<rparr>)"
  by (simp add: slide_Reorder_def do_get_def do_batch_update_def slide_at_def deck_four_def
        env_four_def deck_eval strings_eval)

text \<open>
  C3. The claim asks for an OutOfRange error whenever a listed index is out of bounds. The
  token \<^verbatim>\<open>-1\<close> parses, the loop tests only \<^verbatim>\<open>oldIndex >= len(presentation.Slides)\<close>, and
  \<^verbatim>\<open>presentation.Slides[oldIndex]\<close> panics: on a snapshot of two slides the list \<^verbatim>\<open>-1\<close>
  ends in the run-time panic after the fetch, no batch is submitted, and the outcome is not
  an OutOfRange error.
\<close>

theorem reorder_negative_index_panics:
  "slide_Reorder env_frozen_clock ''p'' ''-1'' st_start =
     (Some (PanicIndex (- 1) 2), \<lparr>world = (), trace = [CallGet ''p''], ticks = 0\<rparr>) \<and>
   \<not> is_OutOfRange (PanicIndex (- 1) 2)"
  by (simp add: slide_Reorder_def do_get_def slide_at_def deck_eval strings_eval)

section \<open>Adding notes\<close>

lemma find_notes_shape_eq:
  "find_notes_shape elements =
     (case find (\<lambda>element. Shape element \<noteq> None) elements of
        None \<Rightarrow> []
      | Some element \<Rightarrow> page_element.ObjectId element)"
  by (induction elements) simp_all

text \<open>
  C4, as amended. For every snapshot and in-range slide index, adding notes fails with
  \<^verbatim>\<open>notes page not available\<close> when the slide has no notes page or the notes page has no
  elements; otherwise it takes the first element of the notes page that has a shape, whether
  or not that shape carries a text body; it fails with \<^verbatim>\<open>notes shape not found\<close> when no
  element has a shape or when the identifier of that first one is empty, and otherwise
  submits one batch that inserts the notes into that element at position 0.
\<close>

theorem notes_add_targets_first_shape:
  assumes get: "PresentationsGet env presentationID (world st) = (Inr presentation, w1)"
    and lo: "0 \<le> slideIndex"
    and hi: "slideIndex < int (length (Slides presentation))"
  shows "notes_Add env presentationID slideIndex notesContent st =
           (case NotesPage (SlideProperties (Slides presentation ! nat slideIndex)) of
              None \<Rightarrow>
                (Some NotesPageNotAvailable,
                 st\<lparr>world := w1, trace := trace st @ [CallGet presentationID]\<rparr>)
            | Some notesPage \<Rightarrow>
                if PageElements notesPage = []
                then (Some NotesPageNotAvailable,
                      st\<lparr>world := w1, trace := trace st @ [CallGet presentationID]\<rparr>)
                else
                  (case find (\<lambda>element. Shape element \<noteq> None) (PageElements notesPage) of
                     None \<Rightarrow>
                       (Some NotesShapeNotFound,
                        st\<lparr>world := w1, trace := trace st @ [CallGet presentationID]\<rparr>)
                   | Some element \<Rightarrow>
                       if page_element.ObjectId element = []
                       then (Some NotesShapeNotFound,
                             st\<lparr>world := w1, trace := trace st @ [CallGet presentationID]\<rparr>)
                       else
                         (case do_batch_update env presentationID
                                 [InsertText (page_element.ObjectId element) None notesContent 0]
                                 (st\<lparr>world := w1,
                                     trace := trace st @ [CallGet presentationID]\<rparr>) of
                            (r, st2) \<Rightarrow> (map_option (Wrapped ''error adding notes'') r, st2))))"
proof -
  have small: "\<not> int (length (Slides presentation)) \<le> slideIndex" using hi by simp
  show ?thesis
    by (simp add: notes_Add_def do_get_eq[OF get] small slide_at_in_range[OF lo hi]
          find_notes_shape_eq Let_def wrap_result
        split: option.split prod.split)
qed

theorem notes_add_targets_first_shape_witness:
  "notes_Add env_mixed_notes ''p'' 0 ''hi'' st_start =
     (None,
      \<lparr>world = (),
       trace = [CallGet ''p'', CallBatchUpdate ''p'' [InsertText ''body'' None ''hi'' 0]],
       ticks = 0\<rparr>)"
  using notes_add_targets_first_shape
    [of env_mixed_notes "''p''" st_start deck_mixed_notes "()" 0 "''hi''"]
  by (simp add: do_batch_update_def env_mixed_notes_def deck_mixed_notes_def deck_eval)

text \<open>
  Counterexample to C4 as stated: the only element of the notes page is a shape with no
  text body, so no element carries a text body; adding notes does not fail with
  \<^verbatim>\<open>notes shape not found\<close> but submits the insertion into that shape and succeeds.
\<close>

theorem notes_add_without_text_body:
  "notes_Add env_bare_notes ''p'' 0 ''hi'' st_start =
     (None,
      \<lparr>world = (),
       trace = [CallGet ''p'', CallBatchUpdate ''p'' [InsertText ''body'' None ''hi'' 0]],
       ticks = 0\<rparr>) \<and>
   text_body (bare_shape ''body'') = None"
  by (simp add: notes_Add_def do_get_def do_batch_update_def slide_at_def text_body_def
        env_bare_notes_def deck_bare_notes_def deck_eval)

section \<open>Styling a cell\<close>

text \<open>
  C5, as amended. \<^verbatim>\<open>StyleCell\<close> validates nothing locally: for every color string it submits
  exactly one batch and returns exactly the outcome of that submission, wrapped when it is
  an error, so it never returns a MalformedInput error. The color of the request is absent
  exactly when the string, after one leading \<^verbatim>\<open>#\<close> is removed, is not six bytes long;
  otherwise it is the color whose red, green and blue channels are the three values that
  the scan of that string left in \<^verbatim>\<open>r\<close>, \<^verbatim>\<open>g\<close> and \<^verbatim>\<open>b\<close>, each divided by 255.
\<close>

theorem style_cell_never_validates:
  assumes "PresentationsBatchUpdate env presentationID
             [UpdateTableCellProperties tableID (parseColor env bgColor)
                \<lparr>RowIndex = row, ColumnIndex = col\<rparr> 1 1
                ''tableCellBackgroundFill.solidFill.color''] (world st) = (r, w1)"
  shows "StyleCell env presentationID tableID row col bgColor st =
           (map_option (Wrapped ''error styling cell'') r,
            st\<lparr>world := w1,
               trace := trace st @
                 [CallBatchUpdate presentationID
                    [UpdateTableCellProperties tableID (parseColor env bgColor)
                       \<lparr>RowIndex = row, ColumnIndex = col\<rparr> 1 1
                       ''tableCellBackgroundFill.solidFill.color'']]\<rparr>) \<and>
         (parseColor env bgColor = None) = (length (TrimPrefix bgColor ''#'') \<noteq> 6) \<and>
         parseColor env bgColor =
           (if length (TrimPrefix bgColor ''#'') \<noteq> 6 then None
            else Some \<lparr>Red = real_of_int (fst (Sscanf_rgb env (TrimPrefix bgColor ''#''))) / 255,
                       Green =
                         real_of_int (fst (snd (Sscanf_rgb env (TrimPrefix bgColor ''#'')))) / 255,
                       Blue =
                         real_of_int (snd (snd (Sscanf_rgb env (TrimPrefix bgColor ''#'')))) / 255\<rparr>) \<and>
         (case fst (StyleCell env presentationID tableID row col bgColor st) of
            None \<Rightarrow> True
          | Some e \<Rightarrow> \<not> is_MalformedInput e)"
  using assms
  by (cases r)
     (simp_all add: StyleCell_def do_batch_update_def parseColor_def Let_def split: prod.split)

theorem style_cell_never_validates_witness:
  "StyleCell env_frozen_clock ''p'' ''t1'' 2 3 ''#12345'' st_start =
     (None,
      \<lparr>world = (),
       trace = [CallBatchUpdate ''p''
                  [UpdateTableCellProperties ''t1'' None \<lparr>RowIndex = 2, ColumnIndex = 3\<rparr> 1 1
                     ''tableCellBackgroundFill.solidFill.color'']],
       ticks = 0\<rparr>) \<and>
   StyleCell env_hex_scanner ''p'' ''t1'' 2 3 ''#FF8000'' st_start =
     (None,
      \<lparr>world = (),
       trace = [CallBatchUpdate ''p''
                  [UpdateTableCellProperties ''t1''
                     (Some \<lparr>Red = 1, Green = 128 / 255, Blue = 0\<rparr>)
                     \<lparr>RowIndex = 2, ColumnIndex = 3\<rparr> 1 1
                     ''tableCellBackgroundFill.solidFill.color'']],
       ticks = 0\<rparr>) \<and>
   parseColor env_hex_scanner ''#FF8000'' = Some \<lparr>Red = 1, Green = 128 / 255, Blue = 0\<rparr>"
  using style_cell_never_validates
    [of env_frozen_clock "''p''" "''t1''" "''#12345''" 2 3 st_start None "()"]
    style_cell_never_validates
    [of env_hex_scanner "''p''" "''t1''" "''#FF8000''" 2 3 st_start None "()"]
  by (simp add: env_hex_scanner_def scan_hex_pairs_def hex_value_def deck_eval strings_eval)

text \<open>
  Counterexample to C5 as stated: the string \<^verbatim>\<open>red\<close> is not a six-hex-digit color, yet
  \<^verbatim>\<open>StyleCell\<close> returns no error and has submitted a batch whose color is absent.
\<close>

theorem invalid_color_is_submitted:
  "StyleCell env_frozen_clock ''p'' ''t1'' 0 0 ''red'' st_start =
     (None,
      \<lparr>world = (),
       trace = [CallBatchUpdate ''p''
                  [UpdateTableCellProperties ''t1'' None \<lparr>RowIndex = 0, ColumnIndex = 0\<rparr> 1 1
                     ''tableCellBackgroundFill.solidFill.color'']],
       ticks = 0\<rparr>)"
  by (simp add: StyleCell_def parseColor_def do_batch_update_def deck_eval strings_eval)

section \<open>Full-text extraction\<close>

lemma extract_elements_eq: "extract_elements es b = b @ concat (map spec_element_text es)"
  by (induction es arbitrary: b)
     (auto simp: spec_element_text_def text_body_def flattened_text_def write_runs_eq
           split: option.splits)

lemma extract_slides_eq: "extract_slides sls b = b @ concat (map spec_slide_text sls)"
  by (induction sls arbitrary: b)
     (auto simp: spec_slide_text_def slide_delimiter_def extract_elements_eq)

text \<open>
  C6. For every snapshot, full-text extraction is the concatenation, over the slides in
  snapshot order, of the text of the slide followed by the fixed delimiter, after the last
  slide too. The text of a slide is, for each of its elements that has a text body in turn,
  the runs of that body concatenated in order into one string and a newline.
\<close>

theorem extract_all_text:
  assumes "PresentationsGet env presentationID (world st) = (Inr presentation, w1)"
  shows "text_ExtractAll env presentationID st =
           (Inr (concat (map spec_slide_text (Slides presentation))),
            st\<lparr>world := w1, trace := trace st @ [CallGet presentationID]\<rparr>)"
  using assms by (simp add: text_ExtractAll_def do_get_eq extract_slides_eq)

theorem extract_all_text_witness:
  "text_ExtractAll env_frozen_clock ''p'' st_start =
     (Inr (''Hello'' @ [CHR 0x0A, CHR 0x0A] @ ''---'' @ [CHR 0x0A, CHR 0x0A] @
           ''World'' @ [CHR 0x0A, CHR 0x0A] @ ''---'' @ [CHR 0x0A, CHR 0x0A]),
      \<lparr>world = (), trace = [CallGet ''p''], ticks = 0\<rparr>)"
  using extract_all_text[of env_frozen_clock "''p''" st_start deck_hello_world "()"]
  by (simp add: deck_eval spec_slide_text_def spec_element_text_def text_body_def
        flattened_text_def run_text_def slide_delimiter_def)

section \<open>Notes extraction\<close>

lemma notes_elements_eq: "notes_elements es b = b @ concat (map element_notes es)"
  by (induction es arbitrary: b)
     (auto simp: element_notes_def text_body_def flattened_text_def write_runs_eq
           split: option.splits)

lemma extract_notes_step:
  "extract_notes idx (sl # rest) allNotes =
     extract_notes (Suc idx) rest
       (case spec_notes sl of None \<Rightarrow> allNotes | Some v \<Rightarrow> allNotes(slide_key idx \<mapsto> v))"
  by (simp add: spec_notes_def notes_elements_eq notes_text_def slide_key_def Let_def
        split: option.splits)

lemma extract_notes_other:
  "(\<And>j. j < length sls \<Longrightarrow> k \<noteq> slide_key (idx + j)) \<Longrightarrow> extract_notes idx sls m k = m k"
proof (induction sls arbitrary: idx m)
  case Nil
  then show ?case by simp
next
  case (Cons sl rest)
  have k0: "k \<noteq> slide_key idx" using Cons.prems[of 0] by simp
  have rest: "k \<noteq> slide_key (Suc idx + j)" if "j < length rest" for j
    using Cons.prems[of "Suc j"] that by simp
  have "extract_notes (Suc idx) rest m' k = m' k" for m'
    using Cons.IH[of "Suc idx" m'] rest by blast
  then show ?case
    unfolding extract_notes_step using k0 by (cases "spec_notes sl") simp_all
qed

lemma extract_notes_at:
  "j < length sls \<Longrightarrow>
   extract_notes idx sls m (slide_key (idx + j)) =
     (case spec_notes (sls ! j) of None \<Rightarrow> m (slide_key (idx + j)) | Some v \<Rightarrow> Some v)"
proof (induction sls arbitrary: idx m j)
  case Nil
  then show ?case by simp
next
  case (Cons sl rest)
  show ?case
  proof (cases j)
    case 0
    have ne: "slide_key idx \<noteq> slide_key (Suc idx + i)" for i
    proof
      assume "slide_key idx = slide_key (Suc idx + i)"
      then have "idx = Suc idx + i" by (rule slide_key_inj)
      then show False by simp
    qed
    have "extract_notes (Suc idx) rest m' (slide_key idx) = m' (slide_key idx)" for m'
      by (rule extract_notes_other) (rule ne)
    with 0 show ?thesis unfolding extract_notes_step by (cases "spec_notes sl") simp_all
  next
    case (Suc j')
    with Cons.prems have j': "j' < length rest" by simp
    have ne: "slide_key (Suc idx + j') \<noteq> slide_key idx"
    proof
      assume "slide_key (Suc idx + j') = slide_key idx"
      then have "Suc idx + j' = idx" by (rule slide_key_inj)
      then show False by simp
    qed
    have "extract_notes (Suc idx) rest m' (slide_key (Suc idx + j')) =
            (case spec_notes (rest ! j') of
               None \<Rightarrow> m' (slide_key (Suc idx + j'))
             | Some v \<Rightarrow> Some v)" for m'
      by (rule Cons.IH[OF j'])
    then show ?thesis unfolding extract_notes_step using Suc ne
      by (cases "spec_notes sl"; cases "spec_notes (rest ! j')") simp_all
  qed
qed

text \<open>
  C7. For every snapshot, notes extraction returns a mapping whose keys are all of the form
  \<^verbatim>\<open>slide_<index>\<close> for an index of the snapshot, and at the key of each index it holds
  the whitespace-trimmed concatenated notes text when the slide has a notes page and that
  concatenated text is non-empty (the test comes before the trimming), and nothing when
  the slide has no notes page or its notes are empty.
\<close>

theorem extract_all_notes:
  assumes "PresentationsGet env presentationID (world st) = (Inr presentation, w1)"
  shows "\<exists>allNotes.
           notes_ExtractAll env presentationID st =
             (Inr allNotes, st\<lparr>world := w1, trace := trace st @ [CallGet presentationID]\<rparr>) \<and>
           (\<forall>idx < length (Slides presentation).
              allNotes (slide_key idx) = spec_notes (Slides presentation ! idx)) \<and>
           dom allNotes \<subseteq> slide_key ` {..< length (Slides presentation)}"
proof -
  define m where "m = extract_notes 0 (Slides presentation) Map.empty"
  have run: "notes_ExtractAll env presentationID st =
             (Inr m, st\<lparr>world := w1, trace := trace st @ [CallGet presentationID]\<rparr>)"
    using assms by (simp add: notes_ExtractAll_def do_get_eq m_def)
  have at: "m (slide_key idx) = spec_notes (Slides presentation ! idx)"
    if "idx < length (Slides presentation)" for idx
    using extract_notes_at[OF that, of 0 Map.empty]
    by (cases "spec_notes (Slides presentation ! idx)") (simp_all add: m_def)
  have none: "m k = None" if "k \<notin> slide_key ` {..< length (Slides presentation)}" for k
  proof -
    have "k \<noteq> slide_key (0 + j)" if "j < length (Slides presentation)" for j
    proof
      assume "k = slide_key (0 + j)"
      with that have "k \<in> slide_key ` {..< length (Slides presentation)}" by simp
      with \<open>k \<notin> _\<close> show False by contradiction
    qed
    then have "extract_notes 0 (Slides presentation) Map.empty k = Map.empty k"
      by (rule extract_notes_other)
    then show ?thesis by (simp add: m_def)
  qed
  have dom: "dom m \<subseteq> slide_key ` {..< length (Slides presentation)}"
  proof
    fix k assume "k \<in> dom m"
    then have "m k \<noteq> None" by auto
    show "k \<in> slide_key ` {..< length (Slides presentation)}"
    proof (rule ccontr)
      assume "k \<notin> slide_key ` {..< length (Slides presentation)}"
      then have "m k = None" by (rule none)
      with \<open>m k \<noteq> None\<close> show False by contradiction
    qed
  qed
  show ?thesis
  proof (rule exI[where x = m], intro conjI allI impI)
    show "notes_ExtractAll env presentationID st =
            (Inr m, st\<lparr>world := w1, trace := trace st @ [CallGet presentationID]\<rparr>)"
      by (rule run)
  next
    fix idx assume "idx < length (Slides presentation)"
    then show "m (slide_key idx) = spec_notes (Slides presentation ! idx)" by (rule at)
  next
    show "dom m \<subseteq> slide_key ` {..< length (Slides presentation)}" by (rule dom)
  qed
qed

theorem extract_all_notes_witness:
  "\<exists>allNotes.
     notes_ExtractAll env_notes ''p'' st_start =
       (Inr allNotes, \<lparr>world = (), trace = [CallGet ''p''], ticks = 0\<rparr>) \<and>
     allNotes ''slide_0'' = Some ''remember this'' \<and>
     allNotes ''slide_1'' = None"
proof -
  note defs = env_notes_def deck_notes_def deck_eval
  have get: "PresentationsGet env_notes ''p'' (world st_start) = (Inr deck_notes, ())"
    by (simp add: defs)
  have len: "length (Slides deck_notes) = 2" by (simp add: defs)
  have k0: "slide_key 0 = ''slide_0''" and k1: "slide_key 1 = ''slide_1''"
    by (simp_all add: slide_key_def format_eval)
  have n0: "spec_notes (Slides deck_notes ! 0) = Some ''remember this''"
    by (simp add: defs spec_notes_def notes_text_def element_notes_def text_body_def
          flattened_text_def run_text_def strings_eval)
  have n1: "spec_notes (Slides deck_notes ! 1) = None"
    by (simp add: defs spec_notes_def)
  from extract_all_notes[OF get] obtain allNotes where
    run: "notes_ExtractAll env_notes ''p'' st_start =
            (Inr allNotes, st_start\<lparr>world := (), trace := trace st_start @ [CallGet ''p'']\<rparr>)"
    and at: "\<forall>idx < length (Slides deck_notes).
               allNotes (slide_key idx) = spec_notes (Slides deck_notes ! idx)"
    by blast
  from at len have "allNotes (slide_key 0) = spec_notes (Slides deck_notes ! 0)"
    and "allNotes (slide_key 1) = spec_notes (Slides deck_notes ! 1)" by simp_all
  with k0 k1 n0 n1 have "allNotes ''slide_0'' = Some ''remember this''"
    "allNotes ''slide_1'' = None"
    by simp_all
  moreover from run have "notes_ExtractAll env_notes ''p'' st_start =
       (Inr allNotes, \<lparr>world = (), trace = [CallGet ''p''], ticks = 0\<rparr>)"
    by (simp add: st_start_def)
  ultimately show ?thesis by blast
qed

text \<open>
  The emptiness test reads the text before it is trimmed: notes that consist of white space
  only are kept, with the empty string as their value.
\<close>

lemma whitespace_only_notes_are_kept:
  "spec_notes (mk_slide ''s0'' []
                 (Some \<lparr>page.ObjectId = ''n0'',
                        PageElements = [text_shape ''body'' ['' '']]\<rparr>)) = Some []"
  by (simp add: mk_slide_def text_shape_def spec_notes_def notes_text_def element_notes_def
        text_body_def flattened_text_def run_text_def strings_eval)

section \<open>Text search\<close>

lemma search_runs_eq:
  "search_runs env query slideIdx element tes results =
     results @ concat (map (run_match env query slideIdx element) tes)"
  by (induction tes arbitrary: results) (auto simp: run_match_def split: option.splits)

lemma search_elements_eq:
  "search_elements env query slideIdx es results =
     results @ concat (map (element_matches env query slideIdx) es)"
  by (induction es arbitrary: results)
     (auto simp: element_matches_def text_body_def search_runs_eq split: option.splits)

lemma search_slides_eq:
  "search_slides env query slideIdx sls results =
     results @ concat (map (slide_matches env query) (enumerate slideIdx sls))"
  by (induction sls arbitrary: results slideIdx)
     (auto simp: slide_matches_def search_elements_eq)

text \<open>
  C8. For every snapshot and query, the search result is the concatenation, over the slides
  with their indices in order, over the elements of each slide in order and over the runs
  of each text body in order, of one result for every run whose lowered content contains
  the lowered query; the result carries the slide index, the identifier of the element and
  the whole content of the run. The test is made on each run alone, so a match that spans
  two runs is not found.
\<close>

theorem search_per_run:
  assumes "PresentationsGet env presentationID (world st) = (Inr presentation, w1)"
  shows "Search env presentationID query st =
           (Inr (concat (map (slide_matches env query) (enumerate 0 (Slides presentation)))),
            st\<lparr>world := w1, trace := trace st @ [CallGet presentationID]\<rparr>)"
  using assms by (simp add: Search_def do_get_eq search_slides_eq)

theorem search_per_run_witness:
  "Search env_frozen_clock ''p'' ''wor'' st_start =
     (Inr [\<lparr>SlideIndex = 1, ObjectID = ''e1'', Text = ''World''\<rparr>],
      \<lparr>world = (), trace = [CallGet ''p''], ticks = 0\<rparr>) \<and>
   Search env_frozen_clock ''p'' ''lo wo'' st_start =
     (Inr [], \<lparr>world = (), trace = [CallGet ''p''], ticks = 0\<rparr>) \<and>
   Search env_split_runs ''p'' ''ello'' st_start =
     (Inr [], \<lparr>world = (), trace = [CallGet ''p''], ticks = 0\<rparr>) \<and>
   Contains (ToLower env_split_runs (''Hel'' @ ''lo'')) (ToLower env_split_runs ''ello'')"
  using search_per_run[of env_frozen_clock "''p''" st_start deck_hello_world "()" "''wor''"]
    search_per_run[of env_frozen_clock "''p''" st_start deck_hello_world "()" "''lo wo''"]
    search_per_run[of env_split_runs "''p''" st_start deck_split_runs "()" "''ello''"]
  by (simp add: env_split_runs_def deck_split_runs_def deck_eval slide_matches_def
        element_matches_def run_match_def text_body_def strings_eval)

section \<open>Placeholders and presentation creation\<close>

text \<open>
  C9. The operations \<^verbatim>\<open>CopyTextStyle\<close>, \<^verbatim>\<open>CopyTheme\<close> and \<^verbatim>\<open>TranslateSlides\<close> are
  no-ops: for every input and every remote environment each returns success (no error)
  and leaves the whole process state as it was, so the remote world is unchanged and no
  remote call is added to the trace.
\<close>

theorem style_operations_are_noops:
  "CopyTextStyle env presentationID sourceObjectID targetObjectID st = (None, st) \<and>
   CopyTheme env sourcePresentationID targetPresentationID st = (None, st) \<and>
   TranslateSlides env presentationID targetLanguage st = (None, st)"
  by (simp add: CopyTextStyle_def CopyTheme_def TranslateSlides_def)

text \<open>
  C10. With a non-empty folder reference, \<^verbatim>\<open>Create\<close> first issues the remote creation and,
  when it succeeded, issues the move to the folder as a second, separate call. Whatever the
  move answers, exactly these two calls are made in this order, so nothing is rolled back;
  when the move fails, \<^verbatim>\<open>Create\<close> returns the wrapped error although the world it leaves
  is the one reached through the successful creation.
\<close>

theorem create_then_move_no_rollback:
  assumes "folderID \<noteq> []"
    and "PresentationsCreate env title (world st) = (Inr result, w1)"
    and "FilesUpdateAddParents env (PresentationId result) folderID w1 = (r, w2)"
  shows "presentation_Create env title folderID st =
           ((case r of Some err \<Rightarrow> Inl (Wrapped ''error moving to folder'' err)
                     | None \<Rightarrow> Inr result),
            st\<lparr>world := w2,
               trace := trace st @ [CallCreate title,
                                    CallFilesUpdate (PresentationId result) folderID]\<rparr>)"
  using assms
  by (simp add: presentation_Create_def do_create_def do_files_update_def split: option.split)

theorem create_then_move_no_rollback_witness:
  "presentation_Create env_move_refused ''Deck'' ''F1'' st_empty =
     (Inl (Wrapped ''error moving to folder'' ''forbidden''),
      \<lparr>world = [''Deck''],
       trace = [CallCreate ''Deck'', CallFilesUpdate ''id_Deck'' ''F1''],
       ticks = 0\<rparr>)"
  using create_then_move_no_rollback
    [of "''F1''" env_move_refused "''Deck''" st_empty
        "\<lparr>PresentationId = ''id_Deck'', Title = ''Deck'', Slides = []\<rparr>"
        "[''Deck'']" "Some ''forbidden''" "[''Deck'']"]
  by (simp add: env_move_refused_def st_empty_def)

end
